theory Spec2Isabelle
  imports Complex_Main
begin

section \<open>JavaScript values and JSON\<close>

text \<open>
  The values the adapter passes around untyped (\<open>options: any\<close>, the fields of a request
  body). A finite number is the rational it is, with \<open>-0\<close> apart; \<open>NaN\<close> and the
  infinities are kept apart too, because \<open>JSON.stringify\<close> treats them differently. An
  object is the list of its own properties in the order the engine enumerates them.
\<close>

datatype jsval =
    JUndefined
  | JNull
  | JBool bool
  | JNum rat
  | JNegZero
  | JNaN
  | JInfinity
  | JStr string
  | JArr "jsval list"
  | JObj "(string \<times> jsval) list"

text \<open>
  A JSON text is represented by its syntax tree: the members of an object in the order
  of the text, duplicates included, and a number token by the finite number
  \<open>JSON.parse\<close> reads it as (\<open>TNegZero\<close> when that is \<open>-0\<close>, \<open>THuge\<close> for a token beyond
  the finite numbers, which is read as an infinity). The concrete syntax that \<open>JSON.stringify\<close> prints and
  \<open>JSON.parse\<close> reads is the JavaScript engine's, not this program's; what the program
  depends on is which value a text denotes.
\<close>

datatype json =
    TNull
  | TBool bool
  | TNum rat
  | TNegZero
  | THuge
  | TStr string
  | TArr "json list"
  | TObj "(string \<times> json) list"

text \<open>
  \<open>JSON.stringify(v)\<close>: \<open>undefined\<close> at the top has no text (the call returns
  \<open>undefined\<close>, here \<open>None\<close>); inside an array it is printed as \<open>null\<close>; a property whose
  value is \<open>undefined\<close> is left out; \<open>NaN\<close> and the infinities are printed as \<open>null\<close>,
  and \<open>-0\<close> as \<open>0\<close>.
\<close>

fun JSON_stringify :: "jsval \<Rightarrow> json option"
  and stringify_elements :: "jsval list \<Rightarrow> json list"
  and stringify_members :: "(string \<times> jsval) list \<Rightarrow> (string \<times> json) list"
where
  "JSON_stringify JUndefined = None"
| "JSON_stringify JNull = Some TNull"
| "JSON_stringify (JBool b) = Some (TBool b)"
| "JSON_stringify (JNum n) = Some (TNum n)"
| "JSON_stringify JNegZero = Some (TNum 0)"
| "JSON_stringify JNaN = Some TNull"
| "JSON_stringify JInfinity = Some TNull"
| "JSON_stringify (JStr s) = Some (TStr s)"
| "JSON_stringify (JArr xs) = Some (TArr (stringify_elements xs))"
| "JSON_stringify (JObj kvs) = Some (TObj (stringify_members kvs))"
| "stringify_elements [] = []"
| "stringify_elements (x # xs) =
     (case JSON_stringify x of None \<Rightarrow> TNull | Some t \<Rightarrow> t) # stringify_elements xs"
| "stringify_members [] = []"
| "stringify_members ((k, v) # kvs) =
     (case JSON_stringify v of
        None \<Rightarrow> stringify_members kvs
      | Some t \<Rightarrow> (k, t) # stringify_members kvs)"

text \<open>
  The order of an object's own properties: the keys that are array indices (\<open>0\<close>, or
  digits with no leading zero, below \<open>2^32 - 1\<close>) come first, in ascending numeric order;
  the other keys follow in the order they were created.
\<close>

definition digit_of :: "char \<Rightarrow> nat option" where
  "digit_of c =
     map_of [(CHR ''0'', 0), (CHR ''1'', 1), (CHR ''2'', 2), (CHR ''3'', 3), (CHR ''4'', 4),
             (CHR ''5'', 5), (CHR ''6'', 6), (CHR ''7'', 7), (CHR ''8'', 8), (CHR ''9'', 9)] c"

fun decimal_value :: "nat \<Rightarrow> string \<Rightarrow> nat option" where
  "decimal_value n [] = Some n"
| "decimal_value n (c # cs) =
     (case digit_of c of None \<Rightarrow> None | Some d \<Rightarrow> decimal_value (10 * n + d) cs)"

definition array_index :: "string \<Rightarrow> nat option" where
  "array_index k =
     (case k of
        [] \<Rightarrow> None
      | c # cs \<Rightarrow>
          if c = CHR ''0'' \<and> cs \<noteq> [] then None
          else
            (case decimal_value 0 k of
               None \<Rightarrow> None
             | Some n \<Rightarrow> if n < 4294967295 then Some n else None))"

definition comes_before :: "string \<Rightarrow> string \<Rightarrow> bool" where
  "comes_before k k' =
     (case array_index k of
        None \<Rightarrow> False
      | Some i \<Rightarrow> (case array_index k' of None \<Rightarrow> True | Some j \<Rightarrow> i < j))"

text \<open>
  Creating the data property \<open>k\<close> with value \<open>v\<close> on an object: an existing property of
  that key keeps its place and takes the value; a new one goes to its place in the
  order.
\<close>

fun set_property :: "string \<Rightarrow> 'v \<Rightarrow> (string \<times> 'v) list \<Rightarrow> (string \<times> 'v) list" where
  "set_property k v [] = [(k, v)]"
| "set_property k v ((k', v') # ps) =
     (if k' = k then (k, v) # ps
      else if comes_before k k' then (k, v) # (k', v') # ps
      else (k', v') # set_property k v ps)"


text \<open>
  The value a JSON text denotes: what \<open>JSON.parse\<close> returns for it. The members of an
  object text are created one after the other on an empty object, so of two members
  with one key the later gives the value, and array indices come first.
\<close>

fun json_value :: "json \<Rightarrow> jsval"
  and json_elements :: "json list \<Rightarrow> jsval list"
  and json_members :: "(string \<times> jsval) list \<Rightarrow> (string \<times> json) list \<Rightarrow> (string \<times> jsval) list"
where
  "json_value TNull = JNull"
| "json_value (TBool b) = JBool b"
| "json_value (TNum n) = JNum n"
| "json_value TNegZero = JNegZero"
| "json_value THuge = JInfinity"
| "json_value (TStr s) = JStr s"
| "json_value (TArr ts) = JArr (json_elements ts)"
| "json_value (TObj kts) = JObj (json_members [] kts)"
| "json_elements [] = []"
| "json_elements (t # ts) = json_value t # json_elements ts"
| "json_members obj [] = obj"
| "json_members obj ((k, t) # kts) = json_members (set_property k (json_value t) obj) kts"


section \<open>The MySQL server: the \<open>history\<close> table\<close>

text \<open>
  A text column holds a string. For the \<open>options\<close> column what matters is whether the
  string is a JSON text, and of which value: \<open>JsonText t\<close> is the text of \<open>t\<close>,
  \<open>OtherText s\<close> a string \<open>s\<close> that is not a JSON text. SQL \<open>NULL\<close> is \<open>None\<close>.
\<close>

datatype longtext = JsonText json | OtherText string

text \<open>
  One row of \<open>history\<close>, with the columns of the \<open>CREATE TABLE\<close> statement in
  \<open>createTable\<close>: every column but \<open>id\<close>, \<open>phone\<close> and \<open>created_at\<close> is nullable.
\<close>

record row =
  row_id :: nat
  row_ref :: "string option"
  row_keyword :: "string option"
  row_answer :: "string option"
  row_refSerialize :: "string option"
  row_phone :: string
  row_options :: "longtext option"
  row_created_at :: nat

text \<open>
  The table: its rows in insertion order and the \<open>AUTO_INCREMENT\<close> counter, the id the
  next inserted row gets.
\<close>

record table =
  rows :: "row list"
  auto_increment :: nat

text \<open>
  The server's database: the \<open>history\<close> table, when it exists, and two things the server
  and the driver decide. \<open>phone_eq\<close> is the comparison \<open>phone = ?\<close> makes: that of the
  column's collation, which for the table \<open>createTable\<close> makes is \<open>utf8mb4_general_ci\<close>,
  where case and trailing spaces do not count. \<open>text_of\<close> is the text a text column
  gets for a bound value that is neither a string nor \<open>null\<close> (the digits of a number, the
  JSON text of an object).
\<close>

record database =
  history :: "table option"
  phone_eq :: "string \<Rightarrow> string \<Rightarrow> bool"
  text_of :: "jsval \<Rightarrow> string"

text \<open>The counter is above every id in use; the server keeps it so.\<close>

definition table_ok :: "table \<Rightarrow> bool" where
  "table_ok t = list_all (\<lambda>r. row_id r < auto_increment t) (rows t)"

datatype error =
    PoolClosed
  | ConnectionFailed
  | QueryFailed
  | NoSuchTable
  | BindUndefined
  | JsonSyntaxError
  | EndFailed

text \<open>
  How an awaited call to the driver settles is the environment's choice: every function
  below that awaits one takes its outcome as an argument. \<open>Rejects\<close> is an I/O failure
  (server unreachable, connection lost); the failures that follow from the state (pool
  closed, table missing, undefined bind parameter) are computed.
\<close>

datatype settle = Resolves | Rejects

text \<open>
  \<open>SELECT * FROM history WHERE phone = ? ORDER BY id DESC\<close>, with \<open>eq\<close> the comparison of
  the \<open>phone\<close> column.
\<close>

definition select_history :: "(string \<Rightarrow> string \<Rightarrow> bool) \<Rightarrow> string \<Rightarrow> table \<Rightarrow> row list" where
  "select_history eq p t = rev (sort_key row_id (filter (\<lambda>r. eq (row_phone r) p) (rows t)))"

definition query_select :: "settle \<Rightarrow> string \<Rightarrow> database \<Rightarrow> error + row list" where
  "query_select io p d =
     (case io of
        Rejects \<Rightarrow> Inl QueryFailed
      | Resolves \<Rightarrow>
          (case history d of
             None \<Rightarrow> Inl NoSuchTable
           | Some t \<Rightarrow> Inr (select_history (phone_eq d) p t)))"

text \<open>
  The \<open>values\<close> array of \<open>save\<close>, the bound parameters of its \<open>INSERT\<close> in order: ref,
  keyword, answer, refSerialize, phone, options. \<open>answer\<close> is whatever the caller passed;
  the last one is what \<open>JSON.stringify\<close> returned, \<open>None\<close> when that was \<open>undefined\<close>.
\<close>

record insert_values =
  val_ref :: string
  val_keyword :: string
  val_answer :: jsval
  val_refSerialize :: string
  val_phone :: string
  val_options :: "json option"

text \<open>
  What a text column holds for a bound value: \<open>NULL\<close> for \<open>null\<close>, the string itself for a
  string, the server's text for anything else.
\<close>

definition bound_text :: "(jsval \<Rightarrow> string) \<Rightarrow> jsval \<Rightarrow> string option" where
  "bound_text txt v =
     (case v of
        JNull \<Rightarrow> None
      | JStr s \<Rightarrow> Some s
      | _ \<Rightarrow> Some (txt v))"

text \<open>
  \<open>INSERT INTO history (ref, keyword, answer, refSerialize, phone, options) VALUES (?, ?,
  ?, ?, ?, ?)\<close>: the new row gets the counter as its id and the server's clock \<open>now\<close> as
  \<open>created_at\<close>, and goes last.
\<close>

definition insert_row :: "(jsval \<Rightarrow> string) \<Rightarrow> insert_values \<Rightarrow> nat \<Rightarrow> table \<Rightarrow> table" where
  "insert_row txt v now t =
     t\<lparr>rows := rows t @
          [\<lparr>row_id = auto_increment t,
            row_ref = Some (val_ref v),
            row_keyword = Some (val_keyword v),
            row_answer = bound_text txt (val_answer v),
            row_refSerialize = Some (val_refSerialize v),
            row_phone = val_phone v,
            row_options = map_option JsonText (val_options v),
            row_created_at = now\<rparr>],
       auto_increment := Suc (auto_increment t)\<rparr>"

text \<open>
  \<open>connection.execute(sql, values)\<close> of \<open>save\<close>. The driver refuses an \<open>undefined\<close> bind
  parameter before anything is sent.
\<close>

definition execute_insert ::
  "settle \<Rightarrow> insert_values \<Rightarrow> nat \<Rightarrow> database \<Rightarrow> (error + unit) \<times> database" where
  "execute_insert io v now d =
     (if val_answer v = JUndefined \<or> val_options v = None then (Inl BindUndefined, d)
      else
        (case io of
           Rejects \<Rightarrow> (Inl QueryFailed, d)
         | Resolves \<Rightarrow>
             (case history d of
                None \<Rightarrow> (Inl NoSuchTable, d)
              | Some t \<Rightarrow> (Inr (), d\<lparr>history := Some (insert_row (text_of d) v now t)\<rparr>))))"

text \<open>\<open>SHOW TABLES LIKE 'history'\<close>: one result row when the table exists, none otherwise.\<close>

definition query_show_tables :: "settle \<Rightarrow> database \<Rightarrow> error + string list" where
  "query_show_tables io d =
     (case io of
        Rejects \<Rightarrow> Inl QueryFailed
      | Resolves \<Rightarrow> Inr (case history d of None \<Rightarrow> [] | Some t \<Rightarrow> [''history'']))"

text \<open>\<open>CREATE TABLE IF NOT EXISTS history (...)\<close>: an existing table is left as it is.\<close>

definition query_create_table :: "settle \<Rightarrow> database \<Rightarrow> (error + unit) \<times> database" where
  "query_create_table io d =
     (case io of
        Rejects \<Rightarrow> (Inl QueryFailed, d)
      | Resolves \<Rightarrow>
          (case history d of
             None \<Rightarrow> (Inr (), d\<lparr>history := Some \<lparr>rows = [], auto_increment = 1\<rparr>\<rparr>)
           | Some t \<Rightarrow> (Inr (), d)))"

section \<open>The connection pool\<close>

record credentials =
  host :: string
  user :: string
  database_name :: string
  password :: string
  port :: nat

text \<open>The options object both calls of \<open>mysql.createPool\<close> build from the credentials.\<close>

record pool_options =
  opt_host :: string
  opt_user :: string
  opt_database :: string
  opt_password :: string
  opt_port :: nat
  enableKeepAlive :: bool
  keepAliveInitialDelay :: nat
  waitForConnections :: bool
  connectionLimit :: nat
  queueLimit :: nat

definition pool_options_of :: "credentials \<Rightarrow> pool_options" where
  "pool_options_of c =
     \<lparr>opt_host = host c, opt_user = user c, opt_database = database_name c,
      opt_password = password c, opt_port = port c,
      enableKeepAlive = True, keepAliveInitialDelay = 10000, waitForConnections = True,
      connectionLimit = 10, queueLimit = 0\<rparr>"

text \<open>
  A pool object: \<open>pool_id\<close> tells one pool object from another (the n-th pool the
  process has created has id n, counted from 0), \<open>closed\<close> is set once \<open>end\<close> has been
  called on it, \<open>in_use\<close> counts the connections checked out and not yet released.
\<close>

record pool =
  pool_id :: nat
  pool_config :: pool_options
  closed :: bool
  in_use :: nat

text \<open>A connection remembers the pool it was checked out from.\<close>

datatype connection = Connection nat

section \<open>The adapter and its surroundings\<close>

text \<open>
  The fields of \<open>MysqlAdapter\<close> (\<open>credentials\<close>, \<open>pool\<close>, \<open>reconnectInterval\<close>: whether the
  interval timer is set) together with what its methods act on: the server's database,
  the console (the first argument of each \<open>console.log\<close> and \<open>console.error\<close> of the
  adapter's methods, oldest first; the lines of the pool's \<open>connection\<close> and \<open>enqueue\<close>
  event handlers are left out), and the number of pools created so far. \<open>pending\<close> holds
  the calls that were started and not awaited, and that the event loop has yet to run:
  the \<open>init\<close> the constructor starts.
\<close>

datatype call = Init_call

record world =
  credentials :: credentials
  pool :: pool
  reconnectInterval :: bool
  pending :: "call list"
  db :: database
  console :: "string list"
  pools_created :: nat

definition log :: "string \<Rightarrow> world \<Rightarrow> world" where
  "log s w = w\<lparr>console := console w @ [s]\<rparr>"

text \<open>\<open>mysql.createPool(options)\<close>, assigned to \<open>this.pool\<close>.\<close>

definition createPool :: "pool_options \<Rightarrow> world \<Rightarrow> world" where
  "createPool opts w =
     w\<lparr>pool := \<lparr>pool_id = pools_created w, pool_config = opts, closed = False, in_use = 0\<rparr>,
       pools_created := Suc (pools_created w)\<rparr>"

text \<open>
  \<open>this.pool.getConnection()\<close>: a closed pool rejects at once; an open one hands out a
  connection unless the environment makes the acquisition fail.
\<close>

definition pool_getConnection :: "settle \<Rightarrow> world \<Rightarrow> (error + connection) \<times> world" where
  "pool_getConnection io w =
     (if closed (pool w) then (Inl PoolClosed, w)
      else
        (case io of
           Rejects \<Rightarrow> (Inl ConnectionFailed, w)
         | Resolves \<Rightarrow>
             (Inr (Connection (pool_id (pool w))),
              w\<lparr>pool := (pool w)\<lparr>in_use := Suc (in_use (pool w))\<rparr>\<rparr>)))"

text \<open>
  \<open>connection.release()\<close>: the connection goes back to the pool it came from; when that
  is no longer the adapter's pool, the adapter's pool is not touched.
\<close>

fun release :: "connection \<Rightarrow> world \<Rightarrow> world" where
  "release (Connection p) w =
     (if p = pool_id (pool w) then w\<lparr>pool := (pool w)\<lparr>in_use := in_use (pool w) - 1\<rparr>\<rparr>
      else w)"

text \<open>\<open>this.pool.end()\<close>: the pool is closed from the call on, however the call settles.\<close>

definition pool_end :: "settle \<Rightarrow> world \<Rightarrow> (error + unit) \<times> world" where
  "pool_end io w =
     ((case io of Resolves \<Rightarrow> Inr () | Rejects \<Rightarrow> Inl EndFailed),
      w\<lparr>pool := (pool w)\<lparr>closed := True\<rparr>\<rparr>)"

section \<open>\<open>MysqlAdapter\<close>\<close>

text \<open>
  The synchronous part of \<open>new MysqlAdapter(_credentials)\<close>, against a server whose
  database is \<open>d\<close>: the credentials are stored, the pool is created, the timer is set.
  \<open>this.init().then()\<close> only starts \<open>init\<close>: that call suspends at its first \<open>await\<close>
  (the acquisition of a connection) and nothing waits for it, so the constructor returns
  with no query issued and the call pending. \<open>resume\<close> below is the event loop running
  it.
\<close>

definition constructor :: "credentials \<Rightarrow> database \<Rightarrow> world" where
  "constructor c d =
     \<lparr>credentials = c,
      pool = \<lparr>pool_id = 0, pool_config = pool_options_of c, closed = False, in_use = 0\<rparr>,
      reconnectInterval = True,
      pending = [Init_call],
      db = d,
      console = [],
      pools_created = 1\<rparr>"

definition getConnection :: "settle \<Rightarrow> world \<Rightarrow> (error + connection) \<times> world" where
  "getConnection io w =
     (case pool_getConnection io w of
        (Inr c, w1) \<Rightarrow> (Inr c, w1)
      | (Inl e, w1) \<Rightarrow> (Inl e, log ''Error acquiring connection:'' w1))"

text \<open>
  What \<open>getPrevByNumber\<close> returns: the empty object \<open>{}\<close>, or the first row of the result
  with its \<open>options\<close> replaced by the parsed value.
\<close>

record history_record =
  rec_id :: nat
  rec_ref :: "string option"
  rec_keyword :: "string option"
  rec_answer :: "string option"
  rec_refSerialize :: "string option"
  rec_phone :: string
  rec_options :: jsval
  rec_created_at :: nat

datatype prev = EmptyObject | RowObject history_record

definition with_options :: "row \<Rightarrow> jsval \<Rightarrow> history_record" where
  "with_options r v =
     \<lparr>rec_id = row_id r, rec_ref = row_ref r, rec_keyword = row_keyword r,
      rec_answer = row_answer r, rec_refSerialize = row_refSerialize r,
      rec_phone = row_phone r, rec_options = v, rec_created_at = row_created_at r\<rparr>"

text \<open>
  \<open>JSON.parse(row.options)\<close>: SQL \<open>NULL\<close> arrives as \<open>null\<close>, which \<open>JSON.parse\<close> reads as
  the text \<open>null\<close>; a string that is not a JSON text makes it throw.
\<close>

definition JSON_parse :: "longtext option \<Rightarrow> error + jsval" where
  "JSON_parse x =
     (case x of
        None \<Rightarrow> Inr JNull
      | Some (JsonText t) \<Rightarrow> Inr (json_value t)
      | Some (OtherText s) \<Rightarrow> Inl JsonSyntaxError)"

text \<open>
  \<open>getPrevByNumber(from)\<close>. \<open>acq\<close> and \<open>q\<close> are the outcomes of acquiring the connection
  and of the query. Each branch ends with the \<open>finally\<close> block: the connection, when one
  was obtained, is released.
\<close>

definition getPrevByNumber ::
  "settle \<Rightarrow> settle \<Rightarrow> string \<Rightarrow> world \<Rightarrow> (error + prev) \<times> world" where
  "getPrevByNumber acq q from_number w =
     (case getConnection acq w of
        (Inl e, w1) \<Rightarrow> (Inl e, log ''Error in getPrevByNumber:'' w1)
      | (Inr conn, w1) \<Rightarrow>
          (case query_select q from_number (db w1) of
             Inl e \<Rightarrow> (Inl e, release conn (log ''Error in getPrevByNumber:'' w1))
           | Inr [] \<Rightarrow> (Inr EmptyObject, release conn w1)
           | Inr (r # rest) \<Rightarrow>
               (case JSON_parse (row_options r) of
                  Inl e \<Rightarrow> (Inl e, release conn (log ''Error in getPrevByNumber:'' w1))
                | Inr v \<Rightarrow> (Inr (RowObject (with_options r v)), release conn w1))))"

text \<open>The argument of \<open>save\<close>; \<open>answer\<close> and \<open>options\<close> are declared \<open>any\<close>.\<close>

record ctx =
  ctx_ref :: string
  ctx_keyword :: string
  ctx_answer :: jsval
  ctx_refSerialize :: string
  ctx_from :: string
  ctx_options :: jsval

definition values_of :: "ctx \<Rightarrow> insert_values" where
  "values_of c =
     \<lparr>val_ref = ctx_ref c, val_keyword = ctx_keyword c, val_answer = ctx_answer c,
      val_refSerialize = ctx_refSerialize c, val_phone = ctx_from c,
      val_options = JSON_stringify (ctx_options c)\<rparr>"

text \<open>
  \<open>save(ctx)\<close>. \<open>acq\<close> and \<open>ex\<close> are the outcomes of acquiring the connection and of
  \<open>connection.execute\<close>; \<open>now\<close> is the server's clock at the insertion.
\<close>

definition save :: "settle \<Rightarrow> settle \<Rightarrow> nat \<Rightarrow> ctx \<Rightarrow> world \<Rightarrow> (error + unit) \<times> world" where
  "save acq ex now c w =
     (case getConnection acq w of
        (Inl e, w1) \<Rightarrow> (Inl e, log ''Error in save:'' w1)
      | (Inr conn, w1) \<Rightarrow>
          (case execute_insert ex (values_of c) now (db w1) of
             (Inl e, d) \<Rightarrow> (Inl e, release conn (log ''Error in save:'' (w1\<lparr>db := d\<rparr>)))
           | (Inr u, d) \<Rightarrow> (Inr (), release conn (w1\<lparr>db := d\<rparr>))))"

definition createTable :: "settle \<Rightarrow> settle \<Rightarrow> world \<Rightarrow> (error + unit) \<times> world" where
  "createTable acq q w =
     (case getConnection acq w of
        (Inl e, w1) \<Rightarrow> (Inl e, log ''Error creating table:'' w1)
      | (Inr conn, w1) \<Rightarrow>
          (case query_create_table q (db w1) of
             (Inl e, d) \<Rightarrow> (Inl e, release conn (log ''Error creating table:'' (w1\<lparr>db := d\<rparr>)))
           | (Inr u, d) \<Rightarrow> (Inr (), release conn (log ''Table history ensured.'' (w1\<lparr>db := d\<rparr>)))))"

text \<open>
  \<open>checkTableExists()\<close>. \<open>acq\<close> and \<open>q\<close> are the outcomes of its own acquisition and
  \<open>SHOW TABLES\<close> query, \<open>acq'\<close> and \<open>q'\<close> those of the nested \<open>createTable\<close>, which runs while
  the outer connection is still held.
\<close>

definition checkTableExists ::
  "settle \<Rightarrow> settle \<Rightarrow> settle \<Rightarrow> settle \<Rightarrow> world \<Rightarrow> (error + unit) \<times> world" where
  "checkTableExists acq q acq' q' w =
     (case getConnection acq w of
        (Inl e, w1) \<Rightarrow> (Inl e, log ''Error checking table existence:'' w1)
      | (Inr conn, w1) \<Rightarrow>
          (case query_show_tables q (db w1) of
             Inl e \<Rightarrow> (Inl e, release conn (log ''Error checking table existence:'' w1))
           | Inr found \<Rightarrow>
               (if length found = 0 then
                  (case createTable acq' q' w1 of
                     (Inl e, w2) \<Rightarrow>
                       (Inl e, release conn (log ''Error checking table existence:'' w2))
                   | (Inr u, w2) \<Rightarrow> (Inr (), release conn w2))
                else (Inr (), release conn w1))))"

text \<open>\<open>init()\<close>: the error of \<open>checkTableExists\<close> is logged and goes no further.\<close>

definition init :: "settle \<Rightarrow> settle \<Rightarrow> settle \<Rightarrow> settle \<Rightarrow> world \<Rightarrow> world" where
  "init acq q acq' q' w =
     (case checkTableExists acq q acq' q' w of
        (Inr u, w1) \<Rightarrow> log ''Database initialized and table checked.'' w1
      | (Inl e, w1) \<Rightarrow> log ''Initialization error:'' w1)"

text \<open>
  The event loop runs the oldest pending call: the \<open>init\<close> the constructor started, with
  the outcomes of its acquisitions and queries.
\<close>

definition resume :: "settle \<Rightarrow> settle \<Rightarrow> settle \<Rightarrow> settle \<Rightarrow> world \<Rightarrow> world" where
  "resume acq q acq' q' w =
     (case pending w of
        [] \<Rightarrow> w
      | Init_call # rest \<Rightarrow> init acq q acq' q' (w\<lparr>pending := rest\<rparr>))"

text \<open>
  \<open>init\<close> has run to its end once one of its two closing lines is on the console: it
  writes one of them on each of its paths, and nothing else writes them.
\<close>

definition bootstrap_finished :: "world \<Rightarrow> bool" where
  "bootstrap_finished w =
     (''Database initialized and table checked.'' \<in> set (console w) \<or>
      ''Initialization error:'' \<in> set (console w))"

text \<open>
  \<open>recreatePool()\<close>, followed to the end of the promise chain it starts. \<open>e\<close> is how
  \<open>this.pool.end()\<close> settles. When it resolves, the \<open>then\<close> callback builds a pool from
  the stored credentials, assigns it to \<open>this.pool\<close> and runs \<open>init\<close> (outcomes \<open>acq\<close>,
  \<open>q\<close>, \<open>acq'\<close>, \<open>q'\<close>); when it rejects, the \<open>catch\<close> callback logs.
\<close>

definition recreatePool ::
  "settle \<Rightarrow> settle \<Rightarrow> settle \<Rightarrow> settle \<Rightarrow> settle \<Rightarrow> world \<Rightarrow> world" where
  "recreatePool e acq q acq' q' w =
     (case pool_end e (log ''Recreating connection pool...'' w) of
        (Inr u, w1) \<Rightarrow>
          log ''Reconnected to database successfully.''
            (init acq q acq' q' (createPool (pool_options_of (credentials w1)) w1))
      | (Inl err, w1) \<Rightarrow> log ''Error ending pool during reconnection:'' w1)"

text \<open>
  \<open>checkConnection()\<close>, the timer's callback. \<open>probe\<close> is the outcome of the probe
  acquisition; the other outcomes are those of \<open>recreatePool\<close>.
\<close>

definition checkConnection ::
  "settle \<Rightarrow> settle \<Rightarrow> settle \<Rightarrow> settle \<Rightarrow> settle \<Rightarrow> settle \<Rightarrow> world \<Rightarrow> world" where
  "checkConnection probe e acq q acq' q' w =
     (case pool_getConnection probe w of
        (Inr conn, w1) \<Rightarrow> log ''Database connection is healthy.'' (release conn w1)
      | (Inl err, w1) \<Rightarrow>
          recreatePool e acq q acq' q'
            (log ''Database connection is down. Attempting to reconnect...'' w1))"

text \<open>\<open>destroy()\<close>: the timer is cleared and the pool ended; nothing waits for the end.\<close>

definition destroy :: "settle \<Rightarrow> world \<Rightarrow> world" where
  "destroy e w =
     log ''MysqlAdapter destroyed: Reconnection check stopped and connection pool closed.''
       (snd (pool_end e (w\<lparr>reconnectInterval := False\<rparr>)))"


text \<open>
  The recreation window: the state from the call of \<open>this.pool.end()\<close> in \<open>recreatePool\<close>
  until that call settles. \<open>this.pool\<close> is still the old pool, on which \<open>end\<close> has been
  called; the handle is assigned only in the \<open>then\<close> callback.
\<close>

definition recreation_window :: "world \<Rightarrow> world" where
  "recreation_window w = snd (pool_end Resolves (log ''Recreating connection pool...'' w))"

text \<open>
  A call in flight: \<open>save\<close> and \<open>getPrevByNumber\<close> from the point where their first
  \<open>await\<close> has given them the connection \<open>conn\<close>, that is the rest of the \<open>try\<close> block
  with its \<open>catch\<close> and \<open>finally\<close>. Other calls may have run in between.
\<close>

definition save_in_flight ::
  "connection \<Rightarrow> settle \<Rightarrow> nat \<Rightarrow> ctx \<Rightarrow> world \<Rightarrow> (error + unit) \<times> world" where
  "save_in_flight conn ex now c w =
     (case execute_insert ex (values_of c) now (db w) of
        (Inl e, d) \<Rightarrow> (Inl e, release conn (log ''Error in save:'' (w\<lparr>db := d\<rparr>)))
      | (Inr u, d) \<Rightarrow> (Inr (), release conn (w\<lparr>db := d\<rparr>)))"

definition getPrevByNumber_in_flight ::
  "connection \<Rightarrow> settle \<Rightarrow> string \<Rightarrow> world \<Rightarrow> (error + prev) \<times> world" where
  "getPrevByNumber_in_flight conn q from_number w =
     (case query_select q from_number (db w) of
        Inl e \<Rightarrow> (Inl e, release conn (log ''Error in getPrevByNumber:'' w))
      | Inr [] \<Rightarrow> (Inr EmptyObject, release conn w)
      | Inr (r # rest) \<Rightarrow>
          (case JSON_parse (row_options r) of
             Inl e \<Rightarrow> (Inl e, release conn (log ''Error in getPrevByNumber:'' w))
           | Inr v \<Rightarrow> (Inr (RowObject (with_options r v)), release conn w)))"

section \<open>The flows\<close>

text \<open>
  The per-conversation state the callbacks read and write: the object behind
  \<open>state.update\<close> and \<open>state.get\<close>, as the list of its properties. The values the flows
  of this program store are message bodies.
\<close>

type_synonym conv_state = "(string \<times> string) list"

text \<open>
  Modelled from the spec: \<open>state.get(key)\<close> and \<open>state.update({key: value})\<close> belong to
  the bot framework, which is not among the repository's files. Section 4.2 gives
  \<open>get(conversationId, key) -> Option\<close> and \<open>set(conversationId, key, value)\<close>: a
  key-value map in which setting a key replaces its value and leaves the other keys.
\<close>

definition state_get :: "string \<Rightarrow> conv_state \<Rightarrow> string option" where
  "state_get k st = map_of st k"

fun state_update :: "string \<Rightarrow> string \<Rightarrow> conv_state \<Rightarrow> conv_state" where
  "state_update k v [] = [(k, v)]"
| "state_update k v ((k', v') # st) =
     (if k' = k then (k, v) # st else (k', v') # state_update k v st)"

text \<open>An interpolation \<open>${x}\<close> in a template literal: \<open>undefined\<close> is written out.\<close>

definition interpolate :: "string option \<Rightarrow> string" where
  "interpolate x = (case x of None \<Rightarrow> ''undefined'' | Some s \<Rightarrow> s)"

text \<open>
  What a step's callback can ask of the engine besides changing the state and sending
  messages with \<open>flowDynamic\<close>: nothing (the flow goes on), \<open>fallBack(message)\<close>, or
  \<open>gotoFlow(flow)\<close>, the flow named by its keyword or event.
\<close>

datatype directive = Continue | FallBack string | GotoFlow string

text \<open>
  A callback takes the body of the inbound message (\<open>ctx.body\<close>) and the state, and
  gives the new state, the messages passed to \<open>flowDynamic\<close>, and its directive.
\<close>

type_synonym callback = "string \<Rightarrow> conv_state \<Rightarrow> conv_state \<times> string list \<times> directive"

text \<open>
  A step of a flow: \<open>addAnswer(answer, {capture}, callback)\<close>; \<open>addAction(callback)\<close> is a
  step with no answer and no capture.
\<close>

record step =
  answer :: "string option"
  capture :: bool
  callback :: callback

text \<open>\<open>registerFlow\<close>, entered by the event \<open>REGISTER_FLOW\<close>.\<close>

definition registerFlow :: "step list" where
  "registerFlow =
     [\<lparr>answer = Some ''What is your name?'', capture = True,
       callback = (\<lambda>body st. (state_update ''name'' body st, [], Continue))\<rparr>,
      \<lparr>answer = Some ''What is your age?'', capture = True,
       callback = (\<lambda>body st. (state_update ''age'' body st, [], Continue))\<rparr>,
      \<lparr>answer = None, capture = False,
       callback = (\<lambda>body st.
         (st,
          [interpolate (state_get ''name'' st) @ '', thanks for your information!: Your age: '' @
           interpolate (state_get ''age'' st)],
          Continue))\<rparr>]"

text \<open>
  \<open>ctx.body.toLocaleLowerCase().includes(s)\<close>, for bodies of ASCII characters: the
  letters \<open>A\<close> to \<open>Z\<close> are lowered, and \<open>includes\<close> looks for \<open>s\<close> at every position.
\<close>

definition lower_char :: "char \<Rightarrow> char" where
  "lower_char c =
     (case map_of (zip ''ABCDEFGHIJKLMNOPQRSTUVWXYZ'' ''abcdefghijklmnopqrstuvwxyz'') c of
        None \<Rightarrow> c
      | Some l \<Rightarrow> l)"

definition toLocaleLowerCase :: "string \<Rightarrow> string" where
  "toLocaleLowerCase s = map lower_char s"

fun starts_with :: "string \<Rightarrow> string \<Rightarrow> bool" where
  "starts_with s [] = True"
| "starts_with [] (y # ys) = False"
| "starts_with (x # xs) (y # ys) = (x = y \<and> starts_with xs ys)"

fun includes_text :: "string \<Rightarrow> string \<Rightarrow> bool" where
  "includes_text [] t = starts_with [] t"
| "includes_text (x # xs) t = (starts_with (x # xs) t \<or> includes_text xs t)"

text \<open>
  \<open>discordFlow\<close>, entered by the keyword \<open>doc\<close>. Its answer is the three lines joined by
  line feeds; the emoji at the head of the second line is given by its four UTF-8 bytes.
\<close>

definition discordFlow :: "step list" where
  "discordFlow =
     [\<lparr>answer = Some (''You can see the documentation here'' @ [CHR 0x0A] @
         [CHR 0xF0, CHR 0x9F, CHR 0x93, CHR 0x84] @ '' https://builderbot.app/docs '' @
         [CHR 0x0A] @ [CHR 0x0A] @ ''Do you want to continue? *yes*''),
       capture = True,
       callback = (\<lambda>body st.
         if includes_text (toLocaleLowerCase body) ''yes'' then (st, [], GotoFlow ''REGISTER_FLOW'')
         else (st, [''Thanks!''], Continue))\<rparr>]"

text \<open>The flows by the keyword or event that enters them; no steps for any other name.\<close>

definition flows :: "string \<Rightarrow> step list" where
  "flows name =
     (if name = ''REGISTER_FLOW'' then registerFlow
      else if name = ''doc'' then discordFlow
      else [])"

text \<open>
  Where a turn leaves the conversation: suspended at a capture step of a flow (the
  resume point), or at the end of its flow.
\<close>

datatype outcome = AwaitingCapture string nat | Complete

text \<open>
  Modelled from the spec: the flow engine (\<open>addKeyword\<close>, \<open>addAnswer\<close>, \<open>addAction\<close>,
  \<open>createFlow\<close>) belongs to the bot framework, which is not among the repository's
  files. Section 4.1: the engine executes the steps in order from the resume point; a
  step emits its answer; a capture step then suspends, and the next inbound message is
  handed to its callback; a step without capture runs its callback at once and the
  engine goes on; a jump resets the resume point to step 0 of the target and goes on
  there within the same turn; a fallback re-emits the step's prompt after the
  corrective message and keeps the resume point. The result is the state, the outbound
  messages in order, and where the conversation stands.

  A flow may jump for ever without capturing; \<open>fuel\<close> bounds the steps of one turn, and
  \<open>None\<close> is a turn that did not end within it.
\<close>

fun run_steps ::
  "nat \<Rightarrow> (string \<Rightarrow> step list) \<Rightarrow> string \<Rightarrow> nat \<Rightarrow> string \<Rightarrow> conv_state \<Rightarrow> string list \<Rightarrow>
     (conv_state \<times> string list \<times> outcome) option" where
  "run_steps 0 fl f i body st out = None"
| "run_steps (Suc fuel) fl f i body st out =
     (if length (fl f) \<le> i then Some (st, out, Complete)
      else
        (let s = fl f ! i;
             out1 = out @ (case answer s of None \<Rightarrow> [] | Some a \<Rightarrow> [a])
         in if capture s then Some (st, out1, AwaitingCapture f i)
            else
              (case callback s body st of
                 (st', msgs, Continue) \<Rightarrow> run_steps fuel fl f (Suc i) body st' (out1 @ msgs)
               | (st', msgs, FallBack m) \<Rightarrow>
                   Some (st', out1 @ msgs @ [m], AwaitingCapture f i)
               | (st', msgs, GotoFlow g) \<Rightarrow> run_steps fuel fl g 0 body st' (out1 @ msgs))))"

text \<open>
  The turn of an inbound message \<open>body\<close> for a conversation suspended at capture step
  \<open>i\<close> of flow \<open>f\<close>.
\<close>

definition advance ::
  "nat \<Rightarrow> (string \<Rightarrow> step list) \<Rightarrow> string \<Rightarrow> nat \<Rightarrow> string \<Rightarrow> conv_state \<Rightarrow>
     (conv_state \<times> string list \<times> outcome) option" where
  "advance fuel fl f i body st =
     (if length (fl f) \<le> i then Some (st, [], Complete)
      else
        (case callback (fl f ! i) body st of
           (st', msgs, Continue) \<Rightarrow> run_steps fuel fl f (Suc i) body st' msgs
         | (st', msgs, FallBack m) \<Rightarrow>
             Some (st',
                   msgs @ [m] @ (case answer (fl f ! i) of None \<Rightarrow> [] | Some a \<Rightarrow> [a]),
                   AwaitingCapture f i)
         | (st', msgs, GotoFlow g) \<Rightarrow> run_steps fuel fl g 0 body st' msgs))"

section \<open>The blacklist endpoint\<close>

text \<open>
  Modelled from the spec: \<open>bot.blacklist\<close> belongs to the bot framework, which is not
  among the repository's files. Section 3: a blacklist entry is a set membership record
  keyed by subscriber identifier, with binary add, remove and contains.
\<close>

type_synonym blacklist = "jsval set"

definition blacklist_add :: "jsval \<Rightarrow> blacklist \<Rightarrow> blacklist" where
  "blacklist_add number bl = insert number bl"

definition blacklist_remove :: "jsval \<Rightarrow> blacklist \<Rightarrow> blacklist" where
  "blacklist_remove number bl = bl - {number}"

text \<open>
  What the handler does to the response: the status and headers of \<open>res.writeHead\<close> and
  the text passed to \<open>res.end\<close> (\<open>None\<close> when \<open>JSON.stringify\<close> returned \<open>undefined\<close>).
\<close>

record response =
  res_statusCode :: nat
  res_headers :: "(string \<times> string) list"
  res_body :: "json option"

text \<open>
  The handler of \<open>POST /v1/blacklist\<close>. \<open>number\<close> and \<open>intent\<close> are the two properties
  read off \<open>req.body\<close>, \<open>undefined\<close> when the body has no such property. The two \<open>if\<close>
  statements come one after the other, \<open>remove\<close> first.
\<close>

definition blacklist_handler :: "jsval \<Rightarrow> jsval \<Rightarrow> blacklist \<Rightarrow> blacklist \<times> response" where
  "blacklist_handler number intent bl =
     (let bl1 = (if intent = JStr ''remove'' then blacklist_remove number bl else bl);
          bl2 = (if intent = JStr ''add'' then blacklist_add number bl1 else bl1)
      in (bl2,
          \<lparr>res_statusCode = 200,
           res_headers = [(''Content-Type'', ''application/json'')],
           res_body = JSON_stringify
             (JObj [(''status'', JStr ''ok''), (''number'', number), (''intent'', intent)])\<rparr>))"

section \<open>Example data\<close>

text \<open>
  The comparison of \<open>utf8mb4_general_ci\<close> on strings of ASCII characters: trailing spaces
  are dropped and letters compared without case.
\<close>

definition rstrip :: "string \<Rightarrow> string" where
  "rstrip s = rev (dropWhile (\<lambda>c. c = CHR '' '') (rev s))"

definition general_ci_ascii :: "string \<Rightarrow> string \<Rightarrow> bool" where
  "general_ci_ascii x y = (map lower_char (rstrip x) = map lower_char (rstrip y))"

text \<open>
  The text the example server stores for a bound boolean: \<open>1\<close> or \<open>0\<close>. The examples bind
  no other value that is neither a string nor \<open>null\<close>.
\<close>

definition example_text_of :: "jsval \<Rightarrow> string" where
  "example_text_of v = (if v = JBool True then ''1'' else ''0'')"

definition example_database :: "table option \<Rightarrow> database" where
  "example_database t =
     \<lparr>history = t, phone_eq = general_ci_ascii, text_of = example_text_of\<rparr>"

definition example_rows :: "row list" where
  "example_rows =
     [\<lparr>row_id = 1, row_ref = Some ''ans_1'', row_keyword = Some ''key_1'',
       row_answer = Some ''hi'', row_refSerialize = Some ''ser_1'', row_phone = ''5551000'',
       row_options = Some (JsonText (TObj [])), row_created_at = 10\<rparr>,
      \<lparr>row_id = 2, row_ref = Some ''ans_2'', row_keyword = Some ''key_2'',
       row_answer = Some ''hello'', row_refSerialize = Some ''ser_2'', row_phone = ''5552000'',
       row_options = None, row_created_at = 11\<rparr>,
      \<lparr>row_id = 3, row_ref = Some ''ans_3'', row_keyword = Some ''key_3'',
       row_answer = Some ''doc'', row_refSerialize = Some ''ser_3'', row_phone = ''5551000'',
       row_options = Some (JsonText (TObj [(''capture'', TBool True)])),
       row_created_at = 12\<rparr>]"

definition example_table :: table where
  "example_table = \<lparr>rows = example_rows, auto_increment = 4\<rparr>"

definition example_credentials :: credentials where
  "example_credentials =
     \<lparr>host = ''localhost'', user = ''bot'', database_name = ''bot'', password = ''secret'',
      port = 3306\<rparr>"

definition example_world :: world where
  "example_world = constructor example_credentials (example_database (Some example_table))"

definition example_ctx :: ctx where
  "example_ctx =
     \<lparr>ctx_ref = ''ans_4'', ctx_keyword = ''key_4'', ctx_answer = JStr ''Ada'',
      ctx_refSerialize = ''ser_4'', ctx_from = ''5551000'',
      ctx_options = JObj [(''capture'', JBool True), (''delay'', JNum 800),
                          (''buttons'', JArr []), (''media'', JNull)]\<rparr>"


text \<open>A freshly constructed adapter against a server that has no \<open>history\<close> table yet.\<close>

definition fresh_world :: world where
  "fresh_world = constructor example_credentials (example_database None)"

text \<open>A table whose only row was saved for the phone \<open>ABC\<close>.\<close>

definition capitals_table :: table where
  "capitals_table =
     \<lparr>rows =
        [\<lparr>row_id = 1, row_ref = Some ''ans_1'', row_keyword = Some ''key_1'',
          row_answer = Some ''hi'', row_refSerialize = Some ''ser_1'', row_phone = ''ABC'',
          row_options = Some (JsonText (TObj [])), row_created_at = 10\<rparr>],
      auto_increment = 2\<rparr>"

definition capitals_world :: world where
  "capitals_world = constructor example_credentials (example_database (Some capitals_table))"



section \<open>Connections are returned on every path\<close>

lemma getConnection_cases:
  "getConnection io w =
     (if closed (pool w) then (Inl PoolClosed, log ''Error acquiring connection:'' w)
      else if io = Rejects then (Inl ConnectionFailed, log ''Error acquiring connection:'' w)
      else (Inr (Connection (pool_id (pool w))),
            w\<lparr>pool := (pool w)\<lparr>in_use := Suc (in_use (pool w))\<rparr>\<rparr>))"
  by (cases io) (simp_all add: getConnection_def pool_getConnection_def)

lemma pool_log [simp]: "pool (log s w) = pool w"
  by (simp add: log_def)

lemma db_log [simp]: "db (log s w) = db w"
  by (simp add: log_def)

lemma createTable_pool: "pool (snd (createTable acq q w)) = pool w"
  by (simp add: createTable_def getConnection_cases query_create_table_def
      split: settle.splits option.splits)

lemma getPrevByNumber_pool: "pool (snd (getPrevByNumber acq q p w)) = pool w"
  by (simp add: getPrevByNumber_def getConnection_cases
      split: sum.splits list.splits)

lemma save_pool: "pool (snd (save acq ex now c w)) = pool w"
  by (simp add: save_def getConnection_cases split: sum.splits prod.splits)

lemma checkTableExists_pool: "pool (snd (checkTableExists acq q acq' q' w)) = pool w"
  apply (simp add: checkTableExists_def getConnection_cases split: sum.splits prod.splits)
  apply (auto simp: createTable_def getConnection_cases query_create_table_def
      split: settle.splits option.splits sum.splits prod.splits)
  done

text \<open>
  Claim C6. Each of \<open>getPrevByNumber\<close>, \<open>save\<close>, \<open>createTable\<close> and \<open>checkTableExists\<close>
  gives back every connection it acquired, however its acquisitions and queries settle
  and whatever the state: after the call the adapter has the same pool, with the same
  number of connections checked out as before.
\<close>

theorem connections_released:
  "pool (snd (getPrevByNumber acq q p w)) = pool w \<and>
   in_use (pool (snd (getPrevByNumber acq q p w))) = in_use (pool w) \<and>
   pool (snd (save acq ex now c w)) = pool w \<and>
   in_use (pool (snd (save acq ex now c w))) = in_use (pool w) \<and>
   pool (snd (createTable acq q w)) = pool w \<and>
   in_use (pool (snd (createTable acq q w))) = in_use (pool w) \<and>
   pool (snd (checkTableExists acq q acq' q' w)) = pool w \<and>
   in_use (pool (snd (checkTableExists acq q acq' q' w))) = in_use (pool w)"
  by (simp add: getPrevByNumber_pool save_pool createTable_pool checkTableExists_pool)

section \<open>The most recent record of a conversation\<close>

lemma select_history_Nil:
  "(select_history eq p t = []) = (\<forall>r \<in> set (rows t). \<not> eq (row_phone r) p)"
proof -
  have "(sort_key row_id (filter (\<lambda>r. eq (row_phone r) p) (rows t)) = []) =
        (filter (\<lambda>r. eq (row_phone r) p) (rows t) = [])"
    by (metis set_sort set_empty)
  then show ?thesis
    by (simp add: select_history_def filter_empty_conv)
qed

lemma select_history_Cons:
  assumes "select_history eq p t = r # rest"
  shows "r \<in> set (rows t) \<and> eq (row_phone r) p \<and>
         (\<forall>r' \<in> set (rows t). eq (row_phone r') p \<longrightarrow> row_id r' \<le> row_id r)"
proof -
  let ?ms = "filter (\<lambda>r. eq (row_phone r) p) (rows t)"
  from assms have s: "sort_key row_id ?ms = rev rest @ [r]"
    by (simp add: select_history_def rev_swap)
  have "set (sort_key row_id ?ms) = set ?ms" by simp
  with s have mem: "set ?ms = set (rev rest @ [r])" by simp
  then have "r \<in> set ?ms" by simp
  then have r: "r \<in> set (rows t) \<and> eq (row_phone r) p" by simp
  have "sorted (map row_id (sort_key row_id ?ms))" by simp
  with s have "sorted (map row_id (rev rest) @ [row_id r])" by simp
  then have le: "\<forall>x \<in> set (rev rest). row_id x \<le> row_id r"
    by (simp add: sorted_append)
  have "\<forall>r' \<in> set (rows t). eq (row_phone r') p \<longrightarrow> row_id r' \<le> row_id r"
  proof (intro ballI impI)
    fix r' assume "r' \<in> set (rows t)" "eq (row_phone r') p"
    then have "r' \<in> set ?ms" by simp
    with mem have "r' \<in> set (rev rest) \<or> r' = r" by auto
    with le show "row_id r' \<le> row_id r" by auto
  qed
  with r show ?thesis by simp
qed

lemma getPrevByNumber_result:
  assumes "\<not> closed (pool w)" and "history (db w) = Some t"
  shows "fst (getPrevByNumber Resolves Resolves p w) =
           (case select_history (phone_eq (db w)) p t of
              [] \<Rightarrow> Inr EmptyObject
            | r # rest \<Rightarrow>
                (case JSON_parse (row_options r) of
                   Inl e \<Rightarrow> Inl e
                 | Inr v \<Rightarrow> Inr (RowObject (with_options r v))))"
  using assms
  by (simp add: getPrevByNumber_def getConnection_cases query_select_def
      split: list.splits sum.splits)

text \<open>
  Claim C4, as the code has it. With the pool open, the table in place and the
  acquisition and the query succeeding, \<open>getPrevByNumber p\<close> returns the empty object
  when no row has a phone that the column's comparison takes for \<open>p\<close>; otherwise it
  returns a row whose phone the comparison takes for \<open>p\<close> and whose id is the greatest
  among such rows, with \<open>options\<close> parsed (or the parse error of that row's \<open>options\<close>).
\<close>

theorem getPrevByNumber_latest:
  assumes "\<not> closed (pool w)" and "history (db w) = Some t"
  shows "if \<forall>r \<in> set (rows t). \<not> phone_eq (db w) (row_phone r) p
         then fst (getPrevByNumber Resolves Resolves p w) = Inr EmptyObject
         else \<exists>r \<in> set (rows t). phone_eq (db w) (row_phone r) p \<and>
                (\<forall>r' \<in> set (rows t).
                   phone_eq (db w) (row_phone r') p \<longrightarrow> row_id r' \<le> row_id r) \<and>
                fst (getPrevByNumber Resolves Resolves p w) =
                  (case JSON_parse (row_options r) of
                     Inl e \<Rightarrow> Inl e
                   | Inr v \<Rightarrow> Inr (RowObject (with_options r v)))"
proof (cases "select_history (phone_eq (db w)) p t")
  case Nil
  then have "\<forall>r \<in> set (rows t). \<not> phone_eq (db w) (row_phone r) p"
    by (simp add: select_history_Nil)
  with Nil assms show ?thesis
    by (simp add: getPrevByNumber_result)
next
  case (Cons r rest)
  from select_history_Cons [OF Cons]
  have r: "r \<in> set (rows t)" "phone_eq (db w) (row_phone r) p"
    "\<forall>r' \<in> set (rows t). phone_eq (db w) (row_phone r') p \<longrightarrow> row_id r' \<le> row_id r"
    by simp_all
  have res: "fst (getPrevByNumber Resolves Resolves p w) =
      (case JSON_parse (row_options r) of
         Inl e \<Rightarrow> Inl e
       | Inr v \<Rightarrow> Inr (RowObject (with_options r v)))"
    using assms Cons by (simp add: getPrevByNumber_result)
  from r(1,2) have neg: "\<not> (\<forall>r \<in> set (rows t). \<not> phone_eq (db w) (row_phone r) p)"
    by blast
  from r res have ex: "\<exists>r \<in> set (rows t). phone_eq (db w) (row_phone r) p \<and>
                (\<forall>r' \<in> set (rows t).
                   phone_eq (db w) (row_phone r') p \<longrightarrow> row_id r' \<le> row_id r) \<and>
                fst (getPrevByNumber Resolves Resolves p w) =
                  (case JSON_parse (row_options r) of
                     Inl e \<Rightarrow> Inl e
                   | Inr v \<Rightarrow> Inr (RowObject (with_options r v)))"
    by blast
  show ?thesis unfolding if_not_P [OF neg] by (rule ex)
qed

lemma general_ci_ascii_examples:
  "general_ci_ascii ''5551000'' ''5551000''" "\<not> general_ci_ascii ''5552000'' ''5551000''"
  "general_ci_ascii ''5551000 '' ''5551000''" "general_ci_ascii ''ABC'' ''abc''"
  by (simp_all add: general_ci_ascii_def rstrip_def lower_char_def)

theorem getPrevByNumber_latest_witness:
  "\<not> closed (pool example_world) \<and> history (db example_world) = Some example_table \<and>
   fst (getPrevByNumber Resolves Resolves ''5551000'' example_world) =
     Inr (RowObject
       \<lparr>rec_id = 3, rec_ref = Some ''ans_3'', rec_keyword = Some ''key_3'',
        rec_answer = Some ''doc'', rec_refSerialize = Some ''ser_3'', rec_phone = ''5551000'',
        rec_options = JObj [(''capture'', JBool True)], rec_created_at = 12\<rparr>)"
proof -
  have h1: "\<not> closed (pool example_world)"
    by (simp add: example_world_def constructor_def)
  have h2: "history (db example_world) = Some example_table"
    by (simp add: example_world_def constructor_def example_database_def)
  have eq: "phone_eq (db example_world) = general_ci_ascii"
    by (simp add: example_world_def constructor_def example_database_def)
  from getPrevByNumber_latest [OF h1 h2, of "''5551000''"]
  have "fst (getPrevByNumber Resolves Resolves ''5551000'' example_world) =
     Inr (RowObject
       \<lparr>rec_id = 3, rec_ref = Some ''ans_3'', rec_keyword = Some ''key_3'',
        rec_answer = Some ''doc'', rec_refSerialize = Some ''ser_3'', rec_phone = ''5551000'',
        rec_options = JObj [(''capture'', JBool True)], rec_created_at = 12\<rparr>)"
    by (simp add: eq example_table_def example_rows_def JSON_parse_def with_options_def
        general_ci_ascii_examples)
  with h1 h2 show ?thesis by simp
qed

text \<open>
  Claim C4 as stated fails: the table holds one row, saved for the phone \<open>ABC\<close>, and none
  for \<open>abc\<close>; under the table's collation the query for \<open>abc\<close> finds that row, and
  \<open>getPrevByNumber\<close> returns it, not the empty object.
\<close>

theorem getPrevByNumber_collation_counterexample:
  "map row_phone (rows capitals_table) = [''ABC''] \<and>
   history (db capitals_world) = Some capitals_table \<and>
   fst (getPrevByNumber Resolves Resolves ''abc'' capitals_world) =
     Inr (RowObject
       \<lparr>rec_id = 1, rec_ref = Some ''ans_1'', rec_keyword = Some ''key_1'',
        rec_answer = Some ''hi'', rec_refSerialize = Some ''ser_1'', rec_phone = ''ABC'',
        rec_options = JObj [], rec_created_at = 10\<rparr>)"
  by (simp add: capitals_world_def capitals_table_def constructor_def example_database_def
      getPrevByNumber_def getConnection_def pool_getConnection_def query_select_def
      select_history_def general_ci_ascii_examples JSON_parse_def with_options_def)

section \<open>Appending, then reading back\<close>






lemma table_ok_insert: "table_ok t \<Longrightarrow> table_ok (insert_row txt v now t)"
  by (auto simp: table_ok_def insert_row_def list_all_iff less_Suc_eq)

lemma save_db:
  "db (snd (save acq ex now c w)) =
     (if fst (save acq ex now c w) = Inr ()
      then (db w)\<lparr>history :=
             map_option (insert_row (text_of (db w)) (values_of c) now) (history (db w))\<rparr>
      else db w)"
  by (auto simp: save_def getConnection_cases execute_insert_def
      split: settle.splits option.splits)






section \<open>Schema bootstrap and pool recreation\<close>

lemma init_pool: "pool (init acq q acq' q' w) = pool w"
  using checkTableExists_pool [of acq q acq' q' w]
  by (auto simp: init_def split: prod.splits sum.splits)

lemma createTable_history:
  "\<not> closed (pool w) \<Longrightarrow>
   (history (db (snd (createTable acq q w))) \<noteq> None) =
     (history (db w) \<noteq> None \<or> (acq = Resolves \<and> q = Resolves))"
  by (cases acq; cases q)
     (auto simp: createTable_def getConnection_cases query_create_table_def
      split: option.splits)

lemma init_history:
  "\<not> closed (pool w) \<Longrightarrow>
   (history (db (init acq q acq' q' w)) \<noteq> None) =
     (history (db w) \<noteq> None \<or>
      (acq = Resolves \<and> q = Resolves \<and> acq' = Resolves \<and> q' = Resolves))"
  by (cases acq; cases q; cases acq'; cases q')
     (auto simp: init_def checkTableExists_def createTable_def getConnection_cases
        query_show_tables_def query_create_table_def
      split: option.splits)

lemma init_finished: "bootstrap_finished (init acq q acq' q' w)"
  by (simp add: init_def bootstrap_finished_def log_def split: prod.splits sum.splits)

lemma checkConnection_probe_fails_eq:
  "closed (pool w) \<or> probe = Rejects \<Longrightarrow>
   checkConnection probe e acq q acq' q' w =
     recreatePool e acq q acq' q'
       (log ''Database connection is down. Attempting to reconnect...'' w)"
  by (auto simp: checkConnection_def pool_getConnection_def)

lemma recreatePool_end_resolves:
  "recreatePool Resolves acq q acq' q' w =
     log ''Reconnected to database successfully.''
       (init acq q acq' q'
         (createPool (pool_options_of (credentials w))
           (snd (pool_end Resolves (log ''Recreating connection pool...'' w)))))"
  by (simp add: recreatePool_def pool_end_def log_def)

lemma init_frame:
  "credentials (init acq q acq' q' w) = credentials w \<and>
   pools_created (init acq q acq' q' w) = pools_created w"
  by (cases acq; cases q; cases acq'; cases q')
     (auto simp: init_def checkTableExists_def createTable_def getConnection_cases
        query_show_tables_def query_create_table_def log_def
      split: option.splits)

text \<open>
  Claim C9. When \<open>this.pool.end()\<close> rejects, \<open>recreatePool\<close> changes nothing but the
  console and the old pool's \<open>closed\<close> flag: the adapter keeps the same pool object, no
  pool is created, the database is not touched and neither closing line of \<open>init\<close> is
  written; the two lines logged are the announcement and the error. The pool being
  closed, the next health check finds its probe failing and starts \<open>recreatePool\<close> again.
\<close>

theorem recreatePool_end_rejects:
  "recreatePool Rejects acq q acq' q' w =
     w\<lparr>pool := (pool w)\<lparr>closed := True\<rparr>,
       console := console w @
         [''Recreating connection pool...'', ''Error ending pool during reconnection:'']\<rparr> \<and>
   pool_id (pool (recreatePool Rejects acq q acq' q' w)) = pool_id (pool w) \<and>
   pools_created (recreatePool Rejects acq q acq' q' w) = pools_created w \<and>
   db (recreatePool Rejects acq q acq' q' w) = db w \<and>
   checkConnection probe e a1 q1 a2 q2 (recreatePool Rejects acq q acq' q' w) =
     recreatePool e a1 q1 a2 q2
       (log ''Database connection is down. Attempting to reconnect...''
         (recreatePool Rejects acq q acq' q' w))"
proof -
  have eq: "recreatePool Rejects acq q acq' q' w =
     w\<lparr>pool := (pool w)\<lparr>closed := True\<rparr>,
       console := console w @
         [''Recreating connection pool...'', ''Error ending pool during reconnection:'']\<rparr>"
    by (simp add: recreatePool_def pool_end_def log_def)
  have "closed (pool (recreatePool Rejects acq q acq' q' w)) \<or> probe = Rejects"
    by (simp add: eq)
  from checkConnection_probe_fails_eq [OF this] eq show ?thesis
    by simp
qed

text \<open>
  Claim C3, as the code has it. A failed probe makes \<open>checkConnection\<close> call
  \<open>recreatePool\<close> once. If ending the old pool succeeds, the adapter's pool becomes one
  new pool, open and idle, built from the stored credentials, and \<open>init\<close> runs on it:
  the table exists afterwards exactly when it existed before or every call of \<open>init\<close>
  succeeded. If ending the old pool fails, no pool is created and the database is left as
  it was.
\<close>

theorem checkConnection_probe_fails:
  assumes "closed (pool w) \<or> probe = Rejects"
  shows "checkConnection probe e acq q acq' q' w =
           recreatePool e acq q acq' q'
             (log ''Database connection is down. Attempting to reconnect...'' w) \<and>
         (if e = Resolves
          then pool (checkConnection probe e acq q acq' q' w) =
                 \<lparr>pool_id = pools_created w,
                  pool_config = pool_options_of (credentials w),
                  closed = False, in_use = 0\<rparr> \<and>
               pools_created (checkConnection probe e acq q acq' q' w) =
                 Suc (pools_created w) \<and>
               credentials (checkConnection probe e acq q acq' q' w) = credentials w \<and>
               (history (db (checkConnection probe e acq q acq' q' w)) \<noteq> None) =
                 (history (db w) \<noteq> None \<or>
                  (acq = Resolves \<and> q = Resolves \<and> acq' = Resolves \<and> q' = Resolves))
          else pool (checkConnection probe e acq q acq' q' w) = (pool w)\<lparr>closed := True\<rparr> \<and>
               pools_created (checkConnection probe e acq q acq' q' w) = pools_created w \<and>
               db (checkConnection probe e acq q acq' q' w) = db w)"
proof -
  let ?r = "checkConnection probe e acq q acq' q' w"
  let ?w0 = "log ''Database connection is down. Attempting to reconnect...'' w"
  have first: "?r = recreatePool e acq q acq' q' ?w0"
    using assms by (rule checkConnection_probe_fails_eq)
  show ?thesis
  proof (cases e)
    case Resolves
    let ?w1 = "createPool (pool_options_of (credentials ?w0))
            (snd (pool_end Resolves (log ''Recreating connection pool...'' ?w0)))"
    have eq: "?r = log ''Reconnected to database successfully.'' (init acq q acq' q' ?w1)"
      using first Resolves by (simp only: recreatePool_end_resolves)
    have w1: "pool ?w1 = \<lparr>pool_id = pools_created w,
                  pool_config = pool_options_of (credentials w),
                  closed = False, in_use = 0\<rparr>"
      "pools_created ?w1 = Suc (pools_created w)" "credentials ?w1 = credentials w"
      "db ?w1 = db w"
      by (simp_all add: createPool_def pool_end_def log_def)
    have open1: "\<not> closed (pool ?w1)"
      by (simp only: w1(1)) simp
    have f1: "pool ?r = \<lparr>pool_id = pools_created w,
                  pool_config = pool_options_of (credentials w),
                  closed = False, in_use = 0\<rparr>"
      unfolding eq by (simp only: pool_log init_pool w1(1))
    have f2: "pools_created ?r = Suc (pools_created w)"
      unfolding eq using init_frame [of acq q acq' q' ?w1] w1(2) by (simp add: log_def)
    have f3: "credentials ?r = credentials w"
      unfolding eq using init_frame [of acq q acq' q' ?w1] w1(3) by (simp add: log_def)
    have f4: "(history (db ?r) \<noteq> None) =
        (history (db w) \<noteq> None \<or>
          (acq = Resolves \<and> q = Resolves \<and> acq' = Resolves \<and> q' = Resolves))"
      unfolding eq using init_history [OF open1, of acq q acq' q'] w1(4) by simp
    from first f1 f2 f3 f4 Resolves show ?thesis
      by (simp only: if_True simp_thms)
  next
    case Rejects
    have "pool ?r = (pool w)\<lparr>closed := True\<rparr> \<and> pools_created ?r = pools_created w \<and>
          db ?r = db w"
      unfolding first using Rejects
      by (simp add: recreatePool_def pool_end_def log_def)
    with first Rejects show ?thesis
      by (simp only: settle.distinct if_False simp_thms)
  qed
qed

theorem checkConnection_probe_fails_witness:
  "(closed (pool fresh_world) \<or> Rejects = Rejects) \<and>
   pool (checkConnection Rejects Resolves Resolves Resolves Resolves Resolves fresh_world) =
     \<lparr>pool_id = 1, pool_config = pool_options_of example_credentials,
      closed = False, in_use = 0\<rparr> \<and>
   pools_created
     (checkConnection Rejects Resolves Resolves Resolves Resolves Resolves fresh_world) = 2 \<and>
   history (db (checkConnection Rejects Resolves Resolves Resolves Resolves Resolves
     fresh_world)) \<noteq> None"
proof -
  have h: "closed (pool fresh_world) \<or> Rejects = Rejects"
    by simp
  from checkConnection_probe_fails [OF h, of Resolves Resolves Resolves Resolves Resolves,
      THEN conjunct2]
  show ?thesis
    by (simp add: fresh_world_def constructor_def)
qed

text \<open>
  Claim C3 as stated fails: the probe fails and ending the old pool fails too, and the
  adapter is left with its old pool and no table; or the old pool ends but the
  acquisition of \<open>init\<close> fails on the new one, and there is still no table.
\<close>

theorem checkConnection_recovery_counterexample:
  "fst (pool_getConnection Rejects fresh_world) = Inl ConnectionFailed \<and>
   pool_id (pool (checkConnection Rejects Rejects Resolves Resolves Resolves Resolves
     fresh_world)) = pool_id (pool fresh_world) \<and>
   pools_created (checkConnection Rejects Rejects Resolves Resolves Resolves Resolves
     fresh_world) = pools_created fresh_world \<and>
   history (db (checkConnection Rejects Rejects Resolves Resolves Resolves Resolves
     fresh_world)) = None \<and>
   history (db (checkConnection Rejects Resolves Rejects Resolves Resolves Resolves
     fresh_world)) = None"
  by (simp add: fresh_world_def constructor_def checkConnection_def pool_getConnection_def
      recreatePool_def pool_end_def createPool_def init_def checkTableExists_def
      getConnection_def log_def example_database_def)

lemma resume_constructor:
  "resume acq q acq' q' (constructor cr d) =
     init acq q acq' q' ((constructor cr d)\<lparr>pending := []\<rparr>)"
  by (simp add: resume_def constructor_def)

lemma save_result:
  assumes "\<not> closed (pool w)"
  shows "fst (save Resolves Resolves now c w) =
           (if ctx_answer c = JUndefined \<or> JSON_stringify (ctx_options c) = None
            then Inl BindUndefined
            else (case history (db w) of None \<Rightarrow> Inl NoSuchTable | Some t \<Rightarrow> Inr ()))"
  using assms
  by (auto simp: save_def getConnection_cases execute_insert_def values_of_def
      split: option.splits)

lemma save_pending: "pending (snd (save acq ex now c w)) = pending w"
  by (cases acq; cases ex)
     (auto simp: save_def getConnection_cases execute_insert_def log_def
      split: option.splits)

text \<open>
  Claim C1, as the code has it. The constructor starts \<open>init\<close> and returns with it
  pending: nothing is on the console, the database is untouched, the bootstrap is not
  finished; when the event loop resumes the pending call, it is \<open>init\<close> that runs on the
  constructed adapter, it finishes, and it leaves the table in place exactly when the
  table was there before or every call of \<open>init\<close> succeeded. \<open>save\<close> does not look at the
  bootstrap: in any state with an open pool, whatever is pending, a \<open>save\<close> whose
  acquisition and execution go through is refused by the driver when its answer or the
  JSON text of its options is \<open>undefined\<close>, and otherwise runs its \<open>INSERT\<close> on the
  database as it is, succeeding when the table exists and failing with the
  missing-table error when it does not; it leaves what is pending as it was.
\<close>

theorem save_not_gated_on_bootstrap:
  assumes "\<not> closed (pool w)"
  shows "pending (constructor cr d) = [Init_call] \<and>
         console (constructor cr d) = [] \<and> db (constructor cr d) = d \<and>
         \<not> bootstrap_finished (constructor cr d) \<and>
         resume acq q acq' q' (constructor cr d) =
           init acq q acq' q' ((constructor cr d)\<lparr>pending := []\<rparr>) \<and>
         bootstrap_finished (resume acq q acq' q' (constructor cr d)) \<and>
         (history (db (resume acq q acq' q' (constructor cr d))) \<noteq> None) =
           (history d \<noteq> None \<or>
            (acq = Resolves \<and> q = Resolves \<and> acq' = Resolves \<and> q' = Resolves)) \<and>
         fst (save Resolves Resolves now c w) =
           (if ctx_answer c = JUndefined \<or> JSON_stringify (ctx_options c) = None
            then Inl BindUndefined
            else (case history (db w) of None \<Rightarrow> Inl NoSuchTable | Some t \<Rightarrow> Inr ())) \<and>
         db (snd (save Resolves Resolves now c w)) =
           (if fst (save Resolves Resolves now c w) = Inr ()
            then (db w)\<lparr>history :=
                   map_option (insert_row (text_of (db w)) (values_of c) now) (history (db w))\<rparr>
            else db w) \<and>
         pending (snd (save Resolves Resolves now c w)) = pending w"
proof -
  let ?w0 = "(constructor cr d)\<lparr>pending := []\<rparr>"
  have c: "pending (constructor cr d) = [Init_call] \<and>
         console (constructor cr d) = [] \<and> db (constructor cr d) = d \<and>
         \<not> bootstrap_finished (constructor cr d)"
    by (simp add: bootstrap_finished_def constructor_def)
  have open0: "\<not> closed (pool ?w0)" and db0: "db ?w0 = d"
    by (simp_all add: constructor_def)
  have r: "resume acq q acq' q' (constructor cr d) = init acq q acq' q' ?w0"
    by (rule resume_constructor)
  have f: "bootstrap_finished (resume acq q acq' q' (constructor cr d))"
    unfolding r by (rule init_finished)
  have h: "(history (db (resume acq q acq' q' (constructor cr d))) \<noteq> None) =
           (history d \<noteq> None \<or>
            (acq = Resolves \<and> q = Resolves \<and> acq' = Resolves \<and> q' = Resolves))"
    unfolding r using init_history [OF open0, of acq q acq' q'] db0 by simp
  note s = save_result [OF assms, of now c] save_db [of Resolves Resolves now c w]
    save_pending [of Resolves Resolves now c w]
  from c r f h s show ?thesis
    by (simp only: simp_thms)
qed

theorem save_not_gated_on_bootstrap_witness:
  "\<not> closed (pool fresh_world) \<and> pending fresh_world = [Init_call] \<and>
   \<not> bootstrap_finished fresh_world \<and>
   fst (save Resolves Resolves 20 example_ctx fresh_world) = Inl NoSuchTable \<and>
   pending (snd (save Resolves Resolves 20 example_ctx fresh_world)) = [Init_call] \<and>
   bootstrap_finished (resume Resolves Resolves Resolves Resolves fresh_world) \<and>
   history (db (resume Resolves Resolves Resolves Resolves fresh_world)) \<noteq> None"
proof -
  have h1: "\<not> closed (pool fresh_world)"
    by (simp add: fresh_world_def constructor_def)
  have d: "history (db fresh_world) = None"
    by (simp add: fresh_world_def constructor_def example_database_def)
  have j: "ctx_answer example_ctx \<noteq> JUndefined" "JSON_stringify (ctx_options example_ctx) \<noteq> None"
    by (simp_all add: example_ctx_def)
  note t = save_not_gated_on_bootstrap [OF h1, of example_credentials "example_database None"
      Resolves Resolves Resolves Resolves 20 example_ctx, folded fresh_world_def]
  from t have a1: "pending fresh_world = [Init_call]"
    by (elim conjE)
  from t have a2: "\<not> bootstrap_finished fresh_world"
    by (elim conjE)
  from t have a3: "bootstrap_finished (resume Resolves Resolves Resolves Resolves fresh_world)"
    by (elim conjE)
  from t have "pending (snd (save Resolves Resolves 20 example_ctx fresh_world)) =
      pending fresh_world"
    by (elim conjE)
  with a1 have a4: "pending (snd (save Resolves Resolves 20 example_ctx fresh_world)) =
      [Init_call]"
    by simp
  from t have "(history (db (resume Resolves Resolves Resolves Resolves fresh_world)) \<noteq> None) =
     (history (example_database None) \<noteq> None \<or>
      (Resolves = Resolves \<and> Resolves = Resolves \<and> Resolves = Resolves \<and> Resolves = Resolves))"
    by (elim conjE)
  then have b: "history (db (resume Resolves Resolves Resolves Resolves fresh_world)) \<noteq> None"
    by simp
  from t have "fst (save Resolves Resolves 20 example_ctx fresh_world) =
           (if ctx_answer example_ctx = JUndefined \<or>
               JSON_stringify (ctx_options example_ctx) = None
            then Inl BindUndefined
            else (case history (db fresh_world) of
                    None \<Rightarrow> Inl NoSuchTable
                  | Some t \<Rightarrow> Inr ()))"
    by (elim conjE)
  with d j have c: "fst (save Resolves Resolves 20 example_ctx fresh_world) = Inl NoSuchTable"
    by simp
  from h1 a1 a2 a3 a4 b c show ?thesis by simp
qed

text \<open>
  Claim C1 as stated fails: right after construction, with \<open>init\<close> pending and the
  bootstrap not finished, a \<open>save\<close> is accepted and inserts its row into an existing
  table, \<open>init\<close> still pending afterwards; against a server with no table it is accepted
  too, and fails on the missing table.
\<close>

theorem save_before_bootstrap_counterexample:
  "pending example_world = [Init_call] \<and> \<not> bootstrap_finished example_world \<and>
   fst (save Resolves Resolves 20 example_ctx example_world) = Inr () \<and>
   history (db (snd (save Resolves Resolves 20 example_ctx example_world))) =
     Some (insert_row example_text_of (values_of example_ctx) 20 example_table) \<and>
   pending (snd (save Resolves Resolves 20 example_ctx example_world)) = [Init_call] \<and>
   \<not> bootstrap_finished (snd (save Resolves Resolves 20 example_ctx example_world)) \<and>
   pending fresh_world = [Init_call] \<and> \<not> bootstrap_finished fresh_world \<and>
   fst (save Resolves Resolves 20 example_ctx fresh_world) = Inl NoSuchTable"
  by (simp add: example_world_def fresh_world_def example_database_def bootstrap_finished_def
      constructor_def save_def getConnection_def pool_getConnection_def execute_insert_def
      values_of_def example_ctx_def log_def)

section \<open>The recreation window\<close>

lemma window_state:
  "recreation_window w =
     w\<lparr>pool := (pool w)\<lparr>closed := True\<rparr>,
       console := console w @ [''Recreating connection pool...'']\<rparr>"
  by (simp add: recreation_window_def pool_end_def log_def)

lemma recreatePool_window:
  "recreatePool e acq q acq' q' w =
     (case e of
        Resolves \<Rightarrow>
          log ''Reconnected to database successfully.''
            (init acq q acq' q'
              (createPool (pool_options_of (credentials w)) (recreation_window w)))
      | Rejects \<Rightarrow> log ''Error ending pool during reconnection:'' (recreation_window w))"
  by (cases e) (simp_all add: recreatePool_def recreation_window_def pool_end_def log_def)

lemma save_split:
  "save acq ex now c w =
     (case getConnection acq w of
        (Inl e, w1) \<Rightarrow> (Inl e, log ''Error in save:'' w1)
      | (Inr conn, w1) \<Rightarrow> save_in_flight conn ex now c w1)"
  by (simp add: save_def save_in_flight_def split: prod.splits sum.splits)

lemma getPrevByNumber_split:
  "getPrevByNumber acq q p w =
     (case getConnection acq w of
        (Inl e, w1) \<Rightarrow> (Inl e, log ''Error in getPrevByNumber:'' w1)
      | (Inr conn, w1) \<Rightarrow> getPrevByNumber_in_flight conn q p w1)"
  by (simp add: getPrevByNumber_def getPrevByNumber_in_flight_def
      split: prod.splits sum.splits)

lemma save_closed:
  "closed (pool w) \<Longrightarrow>
   save acq ex now c w =
     (Inl PoolClosed, log ''Error in save:'' (log ''Error acquiring connection:'' w))"
  by (simp add: save_def getConnection_cases)

lemma getPrevByNumber_closed:
  "closed (pool w) \<Longrightarrow>
   getPrevByNumber acq q p w =
     (Inl PoolClosed,
      log ''Error in getPrevByNumber:'' (log ''Error acquiring connection:'' w))"
  by (simp add: getPrevByNumber_def getConnection_cases)

lemma save_in_flight_result:
  "fst (save_in_flight conn ex now c w) =
     (if ctx_answer c = JUndefined \<or> JSON_stringify (ctx_options c) = None
      then Inl BindUndefined
      else (case ex of
              Rejects \<Rightarrow> Inl QueryFailed
            | Resolves \<Rightarrow>
                (case history (db w) of None \<Rightarrow> Inl NoSuchTable | Some t \<Rightarrow> Inr ())))"
  by (cases ex)
     (auto simp: save_in_flight_def execute_insert_def values_of_def split: option.splits)

lemma getPrevByNumber_in_flight_result:
  "fst (getPrevByNumber_in_flight conn q p w) =
     (case query_select q p (db w) of
        Inl e \<Rightarrow> Inl e
      | Inr [] \<Rightarrow> Inr EmptyObject
      | Inr (r # rest) \<Rightarrow>
          (case JSON_parse (row_options r) of
             Inl e \<Rightarrow> Inl e
           | Inr v \<Rightarrow> Inr (RowObject (with_options r v))))"
  by (simp add: getPrevByNumber_in_flight_def split: sum.splits list.splits)

text \<open>
  Claim C2, as the code has it. \<open>recreatePool\<close> passes through the window and goes on
  from it as \<open>end\<close> settles. In the window \<open>this.pool\<close> is the old pool, closed: it hands
  out no connection, and every \<open>save\<close> and \<open>getPrevByNumber\<close> that arrives fails with the
  pool's error, however its calls would settle, and leaves the database and the pool as
  they are. A call in flight, which holds a connection of the old pool, is not failed:
  it ends as the driver settles its query. Once \<open>end\<close> has resolved the adapter's pool is
  the new pool, open.
\<close>

theorem recreation_window_calls:
  "recreatePool e acq q acq' q' w =
     (case e of
        Resolves \<Rightarrow>
          log ''Reconnected to database successfully.''
            (init acq q acq' q'
              (createPool (pool_options_of (credentials w)) (recreation_window w)))
      | Rejects \<Rightarrow> log ''Error ending pool during reconnection:'' (recreation_window w)) \<and>
   pool (recreation_window w) = (pool w)\<lparr>closed := True\<rparr> \<and>
   db (recreation_window w) = db w \<and>
   pool_getConnection io (recreation_window w) = (Inl PoolClosed, recreation_window w) \<and>
   fst (save a x now c (recreation_window w)) = Inl PoolClosed \<and>
   db (snd (save a x now c (recreation_window w))) = db w \<and>
   pool (snd (save a x now c (recreation_window w))) = pool (recreation_window w) \<and>
   fst (getPrevByNumber a x p (recreation_window w)) = Inl PoolClosed \<and>
   db (snd (getPrevByNumber a x p (recreation_window w))) = db w \<and>
   pool (snd (getPrevByNumber a x p (recreation_window w))) = pool (recreation_window w) \<and>
   fst (save_in_flight conn x now c (recreation_window w)) =
     (if ctx_answer c = JUndefined \<or> JSON_stringify (ctx_options c) = None
      then Inl BindUndefined
      else (case x of
              Rejects \<Rightarrow> Inl QueryFailed
            | Resolves \<Rightarrow>
                (case history (db w) of None \<Rightarrow> Inl NoSuchTable | Some t \<Rightarrow> Inr ()))) \<and>
   fst (getPrevByNumber_in_flight conn x p (recreation_window w)) =
     (case query_select x p (db w) of
        Inl e \<Rightarrow> Inl e
      | Inr [] \<Rightarrow> Inr EmptyObject
      | Inr (r # rest) \<Rightarrow>
          (case JSON_parse (row_options r) of
             Inl e \<Rightarrow> Inl e
           | Inr v \<Rightarrow> Inr (RowObject (with_options r v)))) \<and>
   pool (recreatePool Resolves acq q acq' q' w) =
     \<lparr>pool_id = pools_created w, pool_config = pool_options_of (credentials w),
      closed = False, in_use = 0\<rparr>"
proof -
  have cl: "closed (pool (recreation_window w))" and dbw: "db (recreation_window w) = db w"
    and pw: "pool (recreation_window w) = (pool w)\<lparr>closed := True\<rparr>"
    by (simp_all add: window_state)
  have g: "pool_getConnection io (recreation_window w) = (Inl PoolClosed, recreation_window w)"
    using cl by (simp add: pool_getConnection_def)
  have s: "fst (save a x now c (recreation_window w)) = Inl PoolClosed"
    "db (snd (save a x now c (recreation_window w))) = db w"
    "pool (snd (save a x now c (recreation_window w))) = pool (recreation_window w)"
    using dbw by (simp_all add: save_closed [OF cl])
  have gp: "fst (getPrevByNumber a x p (recreation_window w)) = Inl PoolClosed"
    "db (snd (getPrevByNumber a x p (recreation_window w))) = db w"
    "pool (snd (getPrevByNumber a x p (recreation_window w))) = pool (recreation_window w)"
    using dbw by (simp_all add: getPrevByNumber_closed [OF cl])
  have sf: "fst (save_in_flight conn x now c (recreation_window w)) =
     (if ctx_answer c = JUndefined \<or> JSON_stringify (ctx_options c) = None
      then Inl BindUndefined
      else (case x of
              Rejects \<Rightarrow> Inl QueryFailed
            | Resolves \<Rightarrow>
                (case history (db w) of None \<Rightarrow> Inl NoSuchTable | Some t \<Rightarrow> Inr ())))"
    by (simp only: save_in_flight_result dbw)
  have gf: "fst (getPrevByNumber_in_flight conn x p (recreation_window w)) =
     (case query_select x p (db w) of
        Inl e \<Rightarrow> Inl e
      | Inr [] \<Rightarrow> Inr EmptyObject
      | Inr (r # rest) \<Rightarrow>
          (case JSON_parse (row_options r) of
             Inl e \<Rightarrow> Inl e
           | Inr v \<Rightarrow> Inr (RowObject (with_options r v))))"
    by (simp only: getPrevByNumber_in_flight_result dbw)
  have np: "pool (recreatePool Resolves acq q acq' q' w) =
     \<lparr>pool_id = pools_created w, pool_config = pool_options_of (credentials w),
      closed = False, in_use = 0\<rparr>"
    by (simp add: recreatePool_window init_pool createPool_def window_state)
  from recreatePool_window [of e acq q acq' q' w] pw dbw g s gp sf gf np show ?thesis
    by (simp only: simp_thms)
qed

text \<open>
  Claim C2 as stated fails: a \<open>save\<close> acquires its connection, \<open>recreatePool\<close> then calls
  \<open>end\<close> on the pool, and in the window the \<open>save\<close> in flight, its \<open>INSERT\<close> going through,
  succeeds and inserts its row: it is not failed.
\<close>

theorem in_flight_save_counterexample:
  "fst (getConnection Resolves example_world) = Inr (Connection 0) \<and>
   closed (pool (recreation_window (snd (getConnection Resolves example_world)))) \<and>
   fst (save_in_flight (Connection 0) Resolves 20 example_ctx
         (recreation_window (snd (getConnection Resolves example_world)))) = Inr () \<and>
   history (db (snd (save_in_flight (Connection 0) Resolves 20 example_ctx
         (recreation_window (snd (getConnection Resolves example_world)))))) =
     Some (insert_row example_text_of (values_of example_ctx) 20 example_table)"
  by (simp add: example_world_def example_database_def constructor_def getConnection_def
      pool_getConnection_def window_state save_in_flight_def execute_insert_def values_of_def
      example_ctx_def log_def)

section \<open>The registration flow\<close>

lemma state_get_Nil: "state_get k [] = None"
  by (simp add: state_get_def)

lemma state_get_Cons:
  "state_get k ((k', v) # st) = (if k' = k then Some v else state_get k st)"
  by (simp add: state_get_def)

lemma state_get_update:
  "state_get k' (state_update k v st) = (if k' = k then Some v else state_get k' st)"
  by (induction st) (auto simp: state_get_def)

lemma registerFlow_name_reply:
  "advance (Suc n) flows ''REGISTER_FLOW'' 0 body st =
     Some (state_update ''name'' body st, [''What is your age?''],
           AwaitingCapture ''REGISTER_FLOW'' 1)"
  by (simp add: advance_def flows_def registerFlow_def)

lemma registerFlow_age_reply:
  "advance (Suc (Suc n)) flows ''REGISTER_FLOW'' (Suc 0) body st =
     Some (state_update ''age'' body st,
           [interpolate (state_get ''name'' st) @ '', thanks for your information!: Your age: '' @
            body],
           Complete)"
  by (simp add: advance_def flows_def registerFlow_def state_get_update interpolate_def)

lemma discordFlow_yes:
  "advance (Suc n) flows ''doc'' 0 ''Yes'' st =
     Some (st, [''What is your name?''], AwaitingCapture ''REGISTER_FLOW'' 0)"
  by (simp add: advance_def flows_def registerFlow_def discordFlow_def toLocaleLowerCase_def
      lower_char_def)

text \<open>
  Claim C7. With the conversation suspended at the name step of the registration flow,
  the reply \<open>Ada\<close> sets \<open>name\<close> to \<open>Ada\<close> in the state (from the empty state: the state
  is \<open>{name: "Ada"}\<close>), the only outbound message is \<open>What is your age?\<close>, and the
  conversation is suspended at that step, a capture step. The reply \<open>36\<close> then sets \<open>age\<close>
  to \<open>36\<close>, and the action emits exactly
  \<open>Ada, thanks for your information!: Your age: 36\<close> and the flow is complete. This holds
  for every bound on the steps of a turn of at least one, respectively two.
\<close>

theorem registerFlow_scenario:
  "advance (Suc n) flows ''REGISTER_FLOW'' 0 ''Ada'' [] =
     Some ([(''name'', ''Ada'')], [''What is your age?''], AwaitingCapture ''REGISTER_FLOW'' 1) \<and>
   capture (flows ''REGISTER_FLOW'' ! 1) \<and>
   advance (Suc (Suc m)) flows ''REGISTER_FLOW'' 1 ''36'' [(''name'', ''Ada'')] =
     Some ([(''name'', ''Ada''), (''age'', ''36'')],
           [''Ada, thanks for your information!: Your age: 36''], Complete) \<and>
   state_get ''name'' (state_update ''name'' ''Ada'' st) = Some ''Ada'' \<and>
   state_get ''age'' (state_update ''age'' ''36'' (state_update ''name'' ''Ada'' st)) =
     Some ''36'' \<and>
   advance (Suc n) flows ''REGISTER_FLOW'' 0 ''Ada'' st =
     Some (state_update ''name'' ''Ada'' st, [''What is your age?''],
           AwaitingCapture ''REGISTER_FLOW'' 1) \<and>
   advance (Suc (Suc m)) flows ''REGISTER_FLOW'' 1 ''36'' (state_update ''name'' ''Ada'' st) =
     Some (state_update ''age'' ''36'' (state_update ''name'' ''Ada'' st),
           [''Ada, thanks for your information!: Your age: 36''], Complete)"
  by (simp add: registerFlow_name_reply registerFlow_age_reply state_get_update
      state_get_Nil state_get_Cons interpolate_def flows_def registerFlow_def)

section \<open>The blacklist endpoint: responses and membership\<close>

text \<open>
  Claim C8. For the intent \<open>add\<close> the handler adds the number to the blacklist, for
  \<open>remove\<close> it removes it; either way the response has status 200, the header
  \<open>Content-Type: application/json\<close> and as body the JSON text of
  \<open>{status: "ok", number, intent}\<close>, which for a number given as a string is the object
  with exactly these three string members.
\<close>

theorem blacklist_handler_add_remove:
  "blacklist_handler number (JStr ''add'') bl =
     (insert number bl,
      \<lparr>res_statusCode = 200, res_headers = [(''Content-Type'', ''application/json'')],
       res_body = JSON_stringify
         (JObj [(''status'', JStr ''ok''), (''number'', number), (''intent'', JStr ''add'')])\<rparr>) \<and>
   blacklist_handler number (JStr ''remove'') bl =
     (bl - {number},
      \<lparr>res_statusCode = 200, res_headers = [(''Content-Type'', ''application/json'')],
       res_body = JSON_stringify
         (JObj [(''status'', JStr ''ok''), (''number'', number), (''intent'', JStr ''remove'')])\<rparr>) \<and>
   snd (blacklist_handler (JStr n) (JStr ''add'') bl) =
     \<lparr>res_statusCode = 200, res_headers = [(''Content-Type'', ''application/json'')],
      res_body = Some (TObj [(''status'', TStr ''ok''), (''number'', TStr n),
                         (''intent'', TStr ''add'')])\<rparr> \<and>
   snd (blacklist_handler (JStr n) (JStr ''remove'') bl) =
     \<lparr>res_statusCode = 200, res_headers = [(''Content-Type'', ''application/json'')],
      res_body = Some (TObj [(''status'', TStr ''ok''), (''number'', TStr n),
                         (''intent'', TStr ''remove'')])\<rparr>"
  by (simp add: blacklist_handler_def blacklist_add_def blacklist_remove_def)

text \<open>
  Claim C10. For an intent that is neither the string \<open>add\<close> nor the string \<open>remove\<close>,
  the handler leaves the blacklist as it is and still answers with status 200 and the
  JSON text of \<open>{status: "ok", number, intent}\<close>, the intent echoed.
\<close>

theorem blacklist_handler_other_intent:
  assumes "intent \<noteq> JStr ''add''" and "intent \<noteq> JStr ''remove''"
  shows "blacklist_handler number intent bl =
     (bl,
      \<lparr>res_statusCode = 200, res_headers = [(''Content-Type'', ''application/json'')],
       res_body = JSON_stringify
         (JObj [(''status'', JStr ''ok''), (''number'', number), (''intent'', intent)])\<rparr>)"
  using assms by (simp add: blacklist_handler_def)

theorem blacklist_handler_other_intent_witness:
  "JStr ''block'' \<noteq> JStr ''add'' \<and> JStr ''block'' \<noteq> JStr ''remove'' \<and>
   blacklist_handler (JStr ''5551000'') (JStr ''block'') {JStr ''5552000''} =
     ({JStr ''5552000''},
      \<lparr>res_statusCode = 200, res_headers = [(''Content-Type'', ''application/json'')],
       res_body = Some (TObj [(''status'', TStr ''ok''), (''number'', TStr ''5551000''),
                          (''intent'', TStr ''block'')])\<rparr>)"
proof -
  have h1: "JStr ''block'' \<noteq> JStr ''add''" by simp
  have h2: "JStr ''block'' \<noteq> JStr ''remove''" by simp
  from blacklist_handler_other_intent [OF h1 h2, of "JStr ''5551000''" "{JStr ''5552000''}"]
  show ?thesis by simp
qed

end
